theory Spec2Isabelle
  imports
    Complex_Main
    "HOL-Library.Sublist"
    "HOL-Library.Multiset"
    "HOL-Library.Char_ord"
    "HOL-Library.List_Lexorder"
    "HOL-Library.Product_Lexorder"
begin

section \<open>Expense tracker (tracker.py): a shallow embedding\<close>

text \<open>
  The program is a Streamlit script over an SQLite file. The embedding keeps the
  functions of \<^verbatim>\<open>tracker.py\<close> under their own names. The database is an explicit
  value that every operation takes and returns; an SQL statement is the list operation
  it denotes; a form handler returns the message it shows together with the new
  database. Text is a byte string (\<^typ>\<open>string\<close>), compared the way SQLite's default
  collation and Python compare ASCII text: lexicographically, a proper prefix first.
\<close>

subsection \<open>Python text operations\<close>

text \<open>
  \<^verbatim>\<open>str.lower()\<close> on ASCII text: the letters A to Z (codes 65 to 90) move to a to z,
  every other byte stays. (Python also lowers letters outside ASCII; the keyword table
  below is ASCII, and the model reads descriptions as ASCII bytes.)
\<close>

definition lower_char :: "char \<Rightarrow> char" where
  "lower_char c =
     (let n = (of_char c :: nat) in if 65 \<le> n \<and> n \<le> 90 then char_of (n + 32) else c)"

definition lower :: "string \<Rightarrow> string" where
  "lower s = map lower_char s"

text \<open>
  \<^verbatim>\<open>kw in desc\<close> on two strings: \<open>kw\<close> starts at some position of \<open>desc\<close>
  (the empty string is in every string).
\<close>

fun is_substring :: "string \<Rightarrow> string \<Rightarrow> bool" where
  "is_substring kw [] = (kw = [])"
| "is_substring kw (c # cs) = (prefix kw (c # cs) \<or> is_substring kw cs)"

text \<open>
  \<^verbatim>\<open>str.strip()\<close>: leading and trailing ASCII whitespace (tab, line feed, vertical
  tab, form feed, carriage return, the separators 28 to 31, space) is removed.
\<close>

definition is_space :: "char \<Rightarrow> bool" where
  "is_space c = (let n = (of_char c :: nat) in (9 \<le> n \<and> n \<le> 13) \<or> (28 \<le> n \<and> n \<le> 32))"

definition strip :: "string \<Rightarrow> string" where
  "strip s = rev (dropWhile is_space (rev (dropWhile is_space s)))"

subsection \<open>Categorization logic\<close>

text \<open>
  \<^verbatim>\<open>KEYWORD_CATEGORY_MAP\<close> is a dict literal; a Python dict iterates in insertion
  order, so \<^verbatim>\<open>.items()\<close> is this list, in the order of the literal.
\<close>

definition KEYWORD_CATEGORY_MAP :: "(string \<times> string) list" where
  "KEYWORD_CATEGORY_MAP =
    [(''uber'', ''Transport''), (''taxi'', ''Transport''), (''bus'', ''Transport''),
     (''fuel'', ''Transport''),
     (''coffee'', ''Food''), (''restaurant'', ''Food''), (''dinner'', ''Food''),
     (''lunch'', ''Food''), (''breakfast'', ''Food''),
     (''grocery'', ''Groceries''), (''supermarket'', ''Groceries''),
     (''walmart'', ''Groceries''),
     (''netflix'', ''Entertainment''), (''movie'', ''Entertainment''),
     (''spotify'', ''Entertainment''),
     (''electricity'', ''Bills''), (''water'', ''Bills''), (''internet'', ''Bills''),
     (''bill'', ''Bills''),
     (''shirt'', ''Shopping''), (''amazon'', ''Shopping''), (''flipkart'', ''Shopping''),
     (''buy'', ''Shopping''),
     (''doctor'', ''Health''), (''hospital'', ''Health''), (''medicine'', ''Health''),
     (''tuition'', ''Education''), (''course'', ''Education''), (''books'', ''Education''),
     (''rent'', ''Rent'')]"

text \<open>
  The loop of \<^verbatim>\<open>auto_categorize\<close>: the first pair whose keyword is in \<open>desc\<close>
  returns its category; leaving the loop returns \<^verbatim>\<open>"Misc"\<close>.
\<close>

fun scan_keywords :: "(string \<times> string) list \<Rightarrow> string \<Rightarrow> string" where
  "scan_keywords [] desc = ''Misc''"
| "scan_keywords ((kw, cat) # rest) desc =
     (if is_substring kw desc then cat else scan_keywords rest desc)"

text \<open>
  \<^verbatim>\<open>description or ""\<close>: \<^verbatim>\<open>None\<close> and the empty string are falsy and give
  \<^verbatim>\<open>""\<close>; any other string is itself.
\<close>

definition or_empty :: "string option \<Rightarrow> string" where
  "or_empty description = (case description of None \<Rightarrow> '''' | Some s \<Rightarrow> (if s = '''' then '''' else s))"

definition auto_categorize :: "string option \<Rightarrow> string" where
  "auto_categorize description = scan_keywords KEYWORD_CATEGORY_MAP (lower (or_empty description))"

subsection \<open>The database\<close>

text \<open>
  The two tables of \<^verbatim>\<open>init_db\<close>. A row of \<^verbatim>\<open>users\<close> is (id, username,
  password\_hash); a row of \<^verbatim>\<open>expenses\<close> is (id, dt, amount, description, category,
  user\_id), where \<^verbatim>\<open>user_id\<close> is the column added without \<^verbatim>\<open>NOT NULL\<close>, so it
  may hold NULL (\<open>None\<close>). The SELECT of \<^verbatim>\<open>fetch_expenses\<close> lists the first five
  columns: a \<open>row\<close> is such a result row, and a stored expense is a \<open>row\<close>
  extended with its owner. The column \<^verbatim>\<open>id\<close> is written \<open>uid\<close> and \<open>eid\<close>.
  \<^verbatim>\<open>AUTOINCREMENT\<close> hands out ids from a counter that never goes back.
  An amount is a finite float, read as the real number it denotes.
\<close>

record user =
  uid :: nat
  username :: string
  password_hash :: string

record row =
  eid :: nat
  dt :: string
  amount :: real
  description :: string
  category :: string

record expense = row +
  user_id :: "nat option"

record db =
  users :: "user list"
  expenses :: "expense list"
  next_uid :: nat
  next_eid :: nat

definition init_db :: db where
  "init_db = \<lparr>users = [], expenses = [], next_uid = 1, next_eid = 1\<rparr>"

text \<open>
  \<^verbatim>\<open>WHERE user_id=:uid\<close>. In SQL a comparison with NULL is never true, whether
  the NULL is the stored value or the bound parameter (Python's \<^verbatim>\<open>None\<close>).
\<close>

definition sql_eq :: "nat option \<Rightarrow> nat option \<Rightarrow> bool" where
  "sql_eq a b =
     (case a of None \<Rightarrow> False | Some x \<Rightarrow> (case b of None \<Rightarrow> False | Some y \<Rightarrow> x = y))"

text \<open>
  \<^verbatim>\<open>date(dt) BETWEEN :start AND :end\<close>. SQLite's \<^verbatim>\<open>date()\<close> is a function of the
  database engine and a parameter \<open>sql_date\<close> of the model: the day it reads in a text,
  written \<^verbatim>\<open>YYYY-MM-DD\<close> (a time part is cut), or NULL (\<open>None\<close>) on a text it
  cannot read as a time. \<^verbatim>\<open>BETWEEN\<close> compares that text with the two bounds, bounds
  included, and is not true of NULL.
\<close>

definition sql_between :: "string option \<Rightarrow> string \<Rightarrow> string \<Rightarrow> bool" where
  "sql_between x lo hi = (case x of None \<Rightarrow> False | Some v \<Rightarrow> lo \<le> v \<and> v \<le> hi)"

subsection \<open>Authentication helpers\<close>

text \<open>
  \<^verbatim>\<open>hash_password\<close> is SHA-256 in hexadecimal, a function of \<^verbatim>\<open>hashlib\<close>; the
  model takes it as the parameter \<open>hash_password\<close>.
\<close>

definition verify_password :: "(string \<Rightarrow> string) \<Rightarrow> string \<Rightarrow> string \<Rightarrow> bool" where
  "verify_password hash_password password hashed = (hash_password password = hashed)"

text \<open>\<^verbatim>\<open>fetchone()\<close> of a SELECT by username: the first matching row, or \<^verbatim>\<open>None\<close>.\<close>

definition select_user :: "string \<Rightarrow> db \<Rightarrow> user option" where
  "select_user u d = find (\<lambda>r. username r = u) (users d)"

definition get_user_id :: "string \<Rightarrow> db \<Rightarrow> nat option" where
  "get_user_id u d = (case select_user u d of None \<Rightarrow> None | Some r \<Rightarrow> Some (uid r))"

text \<open>
  \<^verbatim>\<open>register_user\<close>: the INSERT violates \<^verbatim>\<open>username TEXT UNIQUE\<close> when the name
  is stored already; the \<^verbatim>\<open>IntegrityError\<close> is caught, the transaction is rolled back
  and the function returns \<^verbatim>\<open>False\<close>. Otherwise the row is stored and it returns
  \<^verbatim>\<open>True\<close>.
\<close>

definition register_user ::
  "(string \<Rightarrow> string) \<Rightarrow> string \<Rightarrow> string \<Rightarrow> db \<Rightarrow> bool \<times> db" where
  "register_user hash_password u p d =
     (if u \<in> set (map username (users d)) then (False, d)
      else (True,
            d\<lparr>users := users d @
                 [\<lparr>uid = next_uid d, username = u, password_hash = hash_password p\<rparr>],
              next_uid := Suc (next_uid d)\<rparr>))"

definition authenticate_user ::
  "(string \<Rightarrow> string) \<Rightarrow> string \<Rightarrow> string \<Rightarrow> db \<Rightarrow> bool" where
  "authenticate_user hash_password u p d =
     (case select_user u d of
        None \<Rightarrow> False
      | Some r \<Rightarrow> (if verify_password hash_password p (password_hash r) then True else False))"

subsection \<open>Data operations\<close>

definition add_expense ::
  "string \<Rightarrow> real \<Rightarrow> string \<Rightarrow> string \<Rightarrow> nat option \<Rightarrow> db \<Rightarrow> db" where
  "add_expense dt_s amt desc cat user d =
     d\<lparr>expenses := expenses d @
          [\<lparr>eid = next_eid d, dt = dt_s, amount = amt, description = desc, category = cat,
            user_id = user\<rparr>],
       next_eid := Suc (next_eid d)\<rparr>"

text \<open>
  \<^verbatim>\<open>if start_date and end_date\<close>: \<^verbatim>\<open>None\<close> and the empty string are falsy, so the
  date clause is part of the query only when both bounds are non-empty text.
\<close>

definition truthy :: "string option \<Rightarrow> bool" where
  "truthy v = (case v of None \<Rightarrow> False | Some s \<Rightarrow> s \<noteq> [])"

definition date_clause ::
  "(string \<Rightarrow> string option) \<Rightarrow> string option \<Rightarrow> string option \<Rightarrow> string \<Rightarrow> bool" where
  "date_clause sql_date start_date end_date x =
     (if truthy start_date \<and> truthy end_date
      then (case start_date of None \<Rightarrow> True
            | Some lo \<Rightarrow>
                (case end_date of None \<Rightarrow> True | Some hi \<Rightarrow> sql_between (sql_date x) lo hi))
      else True)"

text \<open>
  \<^verbatim>\<open>fetch_expenses\<close>: the SELECT, then, unless the frame is empty,
  \<^verbatim>\<open>pd.to_datetime\<close> on the column \<^verbatim>\<open>dt\<close> and
  \<^verbatim>\<open>sort_values('dt', ascending=False)\<close> on the timestamps it returned.
  \<^verbatim>\<open>pd.to_datetime\<close> is a function of pandas and a parameter \<open>to_datetime\<close> of the
  model: given the texts of the column it returns one timestamp for each, or raises
  (\<open>None\<close>), and then \<^verbatim>\<open>fetch_expenses\<close> raises. The timestamps are of any
  linearly ordered type (with pandas' missing timestamp, which the sort puts last, as
  its least element). A row of the result keeps the text its timestamp was read from.
  pandas does not promise an order among rows of one timestamp; the model sorts with
  \<open>sort_key\<close> and reverses, and the properties below do not depend on how ties fall.
\<close>

definition fetch_expenses ::
  "(string \<Rightarrow> string option) \<Rightarrow> (string list \<Rightarrow> ('t::linorder) list option) \<Rightarrow>
   string option \<Rightarrow> string option \<Rightarrow> nat option \<Rightarrow> db \<Rightarrow> row list option" where
  "fetch_expenses sql_date to_datetime start_date end_date user d =
     (let df = map row.truncate
                 (filter (\<lambda>e. sql_eq (user_id e) user \<and>
                               date_clause sql_date start_date end_date (dt e))
                    (expenses d))
      in if df = [] then Some df
         else (case to_datetime (map dt df) of
                 None \<Rightarrow> None
               | Some stamps \<Rightarrow> Some (map snd (rev (sort_key fst (zip stamps df))))))"

subsection \<open>Form handlers\<close>

text \<open>
  A \<^verbatim>\<open>datetime.date\<close> is (year, month, day), ordered as Python orders dates: by
  year, then month, then day. \<^verbatim>\<open>str\<close> of a date (\<^verbatim>\<open>isoformat\<close>) writes four digits
  of the year and two of the month and the day. \<^verbatim>\<open>strftime("%Y-%m-%d")\<close> writes the
  same from the year 1000 on; how \<^verbatim>\<open>%Y\<close> writes a year below 1000 is left to the C
  library (\<^verbatim>\<open>999\<close> on some platforms, \<^verbatim>\<open>0999\<close> on others) and is the parameter
  \<open>year_text\<close>.
\<close>

type_synonym date = "nat \<times> nat \<times> nat"

definition digit :: "nat \<Rightarrow> char" where
  "digit n = char_of (48 + n mod 10)"

definition four_digits :: "nat \<Rightarrow> string" where
  "four_digits y = [digit (y div 1000), digit (y div 100), digit (y div 10), digit y]"

definition two_digits :: "nat \<Rightarrow> string" where
  "two_digits n = [digit (n div 10), digit n]"

definition isoformat :: "date \<Rightarrow> string" where
  "isoformat day =
     (case day of (y, m, d) \<Rightarrow> four_digits y @ ''-'' @ two_digits m @ ''-'' @ two_digits d)"

definition strftime_ymd :: "(nat \<Rightarrow> string) \<Rightarrow> date \<Rightarrow> string" where
  "strftime_ymd year_text day =
     (case day of (y, m, d) \<Rightarrow>
        (if y < 1000 then year_text y else four_digits y) @ ''-'' @ two_digits m @ ''-'' @
        two_digits d)"

text \<open>What a handler shows: \<^verbatim>\<open>st.error\<close>, \<^verbatim>\<open>st.success\<close> or \<^verbatim>\<open>st.info\<close>.\<close>

datatype message = Error string | Success string | Info string | Imported nat

text \<open>
  The Add Expense form, once submitted. The description is stripped; the category is
  the one chosen in the select box. (The success text ends in a check-mark emoji, left
  out here.)
\<close>

definition add_expense_form ::
  "(nat \<Rightarrow> string) \<Rightarrow> date \<Rightarrow> real \<Rightarrow> string \<Rightarrow> string \<Rightarrow> nat option \<Rightarrow> db \<Rightarrow>
   message \<times> db" where
  "add_expense_form year_text dt_input amount_input description_input category_input user d =
     (let dt_str = strftime_ymd year_text dt_input in
      if amount_input \<le> 0 then (Error ''Amount should be greater than 0.'', d)
      else (Success ''Expense added'',
            add_expense dt_str amount_input (strip description_input) category_input user d))"

text \<open>
  The two DELETE statements of the Admin page:
  \<^verbatim>\<open>DELETE FROM expenses WHERE user_id=:uid\<close> and
  \<^verbatim>\<open>DELETE FROM expenses WHERE user_id=:uid AND date(dt) BETWEEN :start AND :end\<close>.
\<close>

definition sql_delete_all :: "nat option \<Rightarrow> db \<Rightarrow> db" where
  "sql_delete_all user d =
     d\<lparr>expenses := filter (\<lambda>e. \<not> sql_eq (user_id e) user) (expenses d)\<rparr>"

definition sql_delete_range ::
  "(string \<Rightarrow> string option) \<Rightarrow> nat option \<Rightarrow> string \<Rightarrow> string \<Rightarrow> db \<Rightarrow> db" where
  "sql_delete_range sql_date user lo hi d =
     d\<lparr>expenses :=
         filter (\<lambda>e. \<not> (sql_eq (user_id e) user \<and> sql_between (sql_date (dt e)) lo hi))
           (expenses d)\<rparr>"

text \<open>
  The button "Clear ALL Expenses", pressed, with the state of its confirmation box;
  and the button "Delete Selected Range", pressed, with the two dates of the page.
\<close>

definition clear_all_expenses :: "bool \<Rightarrow> nat option \<Rightarrow> db \<Rightarrow> message \<times> db" where
  "clear_all_expenses confirm user d =
     (if confirm then (Success ''All your expense records cleared.'', sql_delete_all user d)
      else (Info ''Check the box to confirm deletion.'', d))"

definition delete_selected_range ::
  "(string \<Rightarrow> string option) \<Rightarrow> (nat \<Rightarrow> string) \<Rightarrow> date \<Rightarrow> date \<Rightarrow> nat option \<Rightarrow> db \<Rightarrow>
   message \<times> db" where
  "delete_selected_range sql_date year_text start_del end_del user d =
     (if start_del > end_del then (Error ''Start date cannot be after end date.'', d)
      else (Success (''Your expenses from '' @ isoformat start_del @ '' to '' @
                     isoformat end_del @ '' deleted.''),
            sql_delete_range sql_date user (strftime_ymd year_text start_del)
              (strftime_ymd year_text end_del) d))"

subsection \<open>Bulk import\<close>

text \<open>
  The row loop of the Bulk Import page (\<^verbatim>\<open>for _, row in csv_df.iterrows()\<close>), on the
  frame that \<^verbatim>\<open>pd.read_csv\<close> returned, its column names lowercased. A cell of that
  frame is a text, a number, or NaN, which is what \<^verbatim>\<open>read_csv\<close> puts for an empty
  field. A row maps column names to cells; \<^verbatim>\<open>row.get(k, default)\<close> is the cell under
  \<open>k\<close>, and the default only when the row has no column \<open>k\<close>.
\<close>

datatype cell = CStr string | CNum real | CNaN

type_synonym csv_row = "(string \<times> cell) list"

definition row_get :: "csv_row \<Rightarrow> string \<Rightarrow> cell option \<Rightarrow> cell option" where
  "row_get r k dflt = (case map_of r k of None \<Rightarrow> dflt | Some c \<Rightarrow> Some c)"

text \<open>
  A Python float as far as the loop looks at it: a finite number or NaN. (The
  infinities are left out.)
\<close>

datatype pyfloat = Fin real | NaN

text \<open>
  Library functions the loop calls, taken as parameters; \<open>None\<close> is a raised
  exception.
  \<^item> \<open>float_of_str\<close>: Python's \<^verbatim>\<open>float\<close> on a string (\<^verbatim>\<open>ValueError\<close> on text
    that is no number);
  \<^item> \<open>str_of_num\<close>: Python's \<^verbatim>\<open>str\<close> on a number;
  \<^item> \<open>parse_date\<close>: \<^verbatim>\<open>dateutil.parser.parse(s).date()\<close> on a string;
  \<^item> \<open>bind_num\<close>: the text SQLite stores when the driver is handed a number for the
    \<^verbatim>\<open>category\<close> column, if the driver accepts the value;
  \<^item> \<open>year_of\<close>: how \<^verbatim>\<open>strftime\<close> writes a year below 1000 (see \<open>strftime_ymd\<close>).
\<close>

record lib =
  float_of_str :: "string \<Rightarrow> pyfloat option"
  str_of_num :: "real \<Rightarrow> string"
  parse_date :: "string \<Rightarrow> date option"
  bind_num :: "real \<Rightarrow> string option"
  year_of :: "nat \<Rightarrow> string"

text \<open>\<^verbatim>\<open>float(x)\<close>, \<^verbatim>\<open>str(x)\<close> and \<^verbatim>\<open>parser.parse(x).date()\<close> on what
  \<^verbatim>\<open>row.get\<close> returned. \<^verbatim>\<open>float(nan)\<close> is NaN and \<^verbatim>\<open>str(nan)\<close> is
  \<^verbatim>\<open>"nan"\<close>; \<^verbatim>\<open>float(None)\<close> raises, and \<^verbatim>\<open>parser.parse\<close> raises on anything
  that is not a string.\<close>

definition py_float :: "lib \<Rightarrow> cell option \<Rightarrow> pyfloat option" where
  "py_float L v =
     (case v of None \<Rightarrow> None
      | Some (CStr s) \<Rightarrow> float_of_str L s
      | Some (CNum x) \<Rightarrow> Some (Fin x)
      | Some CNaN \<Rightarrow> Some NaN)"

definition py_str :: "lib \<Rightarrow> cell option \<Rightarrow> string" where
  "py_str L v =
     (case v of None \<Rightarrow> ''None''
      | Some (CStr s) \<Rightarrow> s
      | Some (CNum x) \<Rightarrow> str_of_num L x
      | Some CNaN \<Rightarrow> ''nan'')"

definition dateutil_parse :: "lib \<Rightarrow> cell option \<Rightarrow> date option" where
  "dateutil_parse L v = (case v of Some (CStr s) \<Rightarrow> parse_date L s | _ \<Rightarrow> None)"

text \<open>
  \<^verbatim>\<open>if pd.isna(cat) or not cat: cat = auto_categorize(desc)\<close>, and then what the INSERT
  stores for \<open>cat\<close>. \<^verbatim>\<open>None\<close> and NaN are NA; the empty text and the number 0 are
  falsy. A category that stays a number is stored as the driver binds it, and the INSERT
  raises if the driver refuses it.
\<close>

definition row_category :: "lib \<Rightarrow> string \<Rightarrow> cell option \<Rightarrow> string option" where
  "row_category L desc cat =
     (case cat of
        None \<Rightarrow> Some (auto_categorize (Some desc))
      | Some CNaN \<Rightarrow> Some (auto_categorize (Some desc))
      | Some (CStr s) \<Rightarrow> Some (if s = [] then auto_categorize (Some desc) else s)
      | Some (CNum x) \<Rightarrow> (if x = 0 then Some (auto_categorize (Some desc)) else bind_num L x))"

text \<open>
  One turn of the loop, on the pair of the database and the counter \<open>inserted\<close>.
  Every exception of the body is caught by \<^verbatim>\<open>except Exception: continue\<close>, which
  leaves the pair as it is.
\<close>

definition import_row ::
  "lib \<Rightarrow> string list \<Rightarrow> nat option \<Rightarrow> csv_row \<Rightarrow> db \<times> nat \<Rightarrow> db \<times> nat" where
  "import_row L columns user r st =
     (let dt_val = row_get r ''dt'' None in
      case py_float L (row_get r ''amount'' (Some (CNum 0))) of
        None \<Rightarrow> st
      | Some amt \<Rightarrow>
          (let desc = py_str L (row_get r ''description'' (Some (CStr [])));
               cat = (if ''category'' \<in> set columns then row_get r ''category'' None else None)
           in case dateutil_parse L dt_val of
                None \<Rightarrow> st
              | Some day \<Rightarrow>
                  (let dt_parsed = strftime_ymd (year_of L) day in
                   case amt of
                     NaN \<Rightarrow> st
                   | Fin a \<Rightarrow>
                       if a > 0
                       then (case row_category L desc cat of
                               None \<Rightarrow> st
                             | Some c \<Rightarrow>
                                 (add_expense dt_parsed a desc c user (fst st), Suc (snd st)))
                       else st)))"

definition import_rows ::
  "lib \<Rightarrow> string list \<Rightarrow> nat option \<Rightarrow> csv_row list \<Rightarrow> db \<times> nat \<Rightarrow> db \<times> nat" where
  "import_rows L columns user rs st = fold (import_row L columns user) rs st"

text \<open>
  The loop from \<^verbatim>\<open>inserted = 0\<close> to its message
  \<^verbatim>\<open>st.success(f"Imported {inserted} records successfully.")\<close>, written
  \<open>Imported inserted\<close>.
\<close>

definition bulk_import ::
  "lib \<Rightarrow> string list \<Rightarrow> nat option \<Rightarrow> csv_row list \<Rightarrow> db \<Rightarrow> message \<times> db" where
  "bulk_import L columns user rs d =
     (case import_rows L columns user rs (d, 0) of (d', inserted) \<Rightarrow> (Imported inserted, d'))"

subsection \<open>Notions used in the statements\<close>

text \<open>
  The ways a row fails that the import is specified to survive: the amount does not
  parse, the date does not parse, or the amount is not positive.
\<close>

definition row_fails :: "lib \<Rightarrow> csv_row \<Rightarrow> bool" where
  "row_fails L r =
     (case py_float L (row_get r ''amount'' (Some (CNum 0))) of
        None \<Rightarrow> True
      | Some NaN \<Rightarrow> dateutil_parse L (row_get r ''dt'' None) = None
      | Some (Fin a) \<Rightarrow> a \<le> 0 \<or> dateutil_parse L (row_get r ''dt'' None) = None)"

text \<open>A row that the loop inserts: a positive amount, a date, a category that binds.\<close>

definition row_ok :: "lib \<Rightarrow> string list \<Rightarrow> csv_row \<Rightarrow> bool" where
  "row_ok L columns r =
     (case py_float L (row_get r ''amount'' (Some (CNum 0))) of
        Some (Fin a) \<Rightarrow>
          0 < a \<and> dateutil_parse L (row_get r ''dt'' None) \<noteq> None \<and>
          row_category L (py_str L (row_get r ''description'' (Some (CStr []))))
            (if ''category'' \<in> set columns then row_get r ''category'' None else None) \<noteq> None
      | _ \<Rightarrow> False)"

text \<open>
  A sample of the library functions for the concrete instances: each reads the texts
  listed as Python does and refuses every other text; only listed inputs are used.
\<close>

definition sample_lib :: lib where
  "sample_lib =
     \<lparr>float_of_str = map_of [(''12.50'', Fin 12.5), (''40'', Fin 40), (''0'', Fin 0)],
      str_of_num = (\<lambda>x. if x = 40 then ''40.0'' else ''12.5''),
      parse_date = map_of [(''2024-01-15'', (2024, 1, 15)), (''2024-02-10'', (2024, 2, 10)),
                           (''2024-03-05'', (2024, 3, 5))],
      bind_num = (\<lambda>x. None),
      year_of = four_digits\<rparr>"

text \<open>The stored expenses of user \<open>u\<close>, in table order.\<close>

definition owned_by :: "nat \<Rightarrow> db \<Rightarrow> expense list" where
  "owned_by u d = filter (\<lambda>e. user_id e = Some u) (expenses d)"


text \<open>
  Samples of \<^verbatim>\<open>date()\<close> and \<^verbatim>\<open>pd.to_datetime\<close> for the concrete instances. They
  read the three day texts listed as SQLite and pandas do (the timestamp of a day is
  its midnight, in nanoseconds since 1970) and refuse every other text; only listed
  texts are used.
\<close>

definition sample_days :: "(string \<times> int) list" where
  "sample_days =
     [(''2024-01-15'', 1705276800000000000), (''2024-02-10'', 1707523200000000000),
      (''2024-03-05'', 1709596800000000000)]"

definition sample_sql_date :: "string \<Rightarrow> string option" where
  "sample_sql_date x = (if x \<in> set (map fst sample_days) then Some x else None)"

definition sample_stamp :: "string \<Rightarrow> int" where
  "sample_stamp x = (case map_of sample_days x of None \<Rightarrow> 0 | Some t \<Rightarrow> t)"

definition sample_to_datetime :: "string list \<Rightarrow> int list option" where
  "sample_to_datetime xs =
     (if list_all (\<lambda>x. x \<in> set (map fst sample_days)) xs then Some (map sample_stamp xs)
      else None)"

text \<open>
  What \<^verbatim>\<open>id INTEGER PRIMARY KEY AUTOINCREMENT\<close> maintains: no two stored expenses
  share an id, and every id in use is below the counter.
\<close>

definition wf_db :: "db \<Rightarrow> bool" where
  "wf_db d =
     (distinct (map eid (expenses d)) \<and> list_all (\<lambda>e. eid e < next_eid d) (expenses d))"

text \<open>A small database for the concrete instances: two expenses of user 1, one of user 2.\<close>

definition sample_db :: db where
  "sample_db =
     add_expense ''2024-03-05'' 40 ''uber to airport'' ''Transport'' (Some 2)
       (add_expense ''2024-02-10'' 12.5 ''coffee'' ''Food'' (Some 1)
         (add_expense ''2024-01-15'' 300 ''rent'' ''Rent'' (Some 1) init_db))"

text \<open>
  Three rows of an upload with the columns dt, amount, description. The amount of the
  second row is no number, so the amount column of the frame holds text.
\<close>

definition upload_columns :: "string list" where
  "upload_columns = [''dt'', ''amount'', ''description'']"

definition upload_row1 :: csv_row where
  "upload_row1 =
     [(''dt'', CStr ''2024-01-15''), (''amount'', CStr ''12.50''),
      (''description'', CStr ''coffee beans'')]"

definition upload_row2 :: csv_row where
  "upload_row2 =
     [(''dt'', CStr ''2024-02-10''), (''amount'', CStr ''twelve''),
      (''description'', CStr ''lunch'')]"

definition upload_row3 :: csv_row where
  "upload_row3 =
     [(''dt'', CStr ''2024-03-05''), (''amount'', CStr ''40''),
      (''description'', CStr ''taxi home'')]"

text \<open>
  An expense stored with an empty description (the Add Expense form allows it), and
  the row of the frame that the import reads after that expense was exported:
  \<^verbatim>\<open>to_csv\<close> writes the line \<^verbatim>\<open>1,2024-01-15,12.5,,Food\<close> under the header
  \<^verbatim>\<open>id,dt,amount,description,category\<close>, and \<^verbatim>\<open>read_csv\<close> reads the empty field
  as NaN.
\<close>

definition blank_expense :: expense where
  "blank_expense =
     \<lparr>eid = 1, dt = ''2024-01-15'', amount = 12.5, description = [], category = ''Food'',
      user_id = Some 1\<rparr>"

definition exported_columns :: "string list" where
  "exported_columns = [''id'', ''dt'', ''amount'', ''description'', ''category'']"

definition blank_expense_reread :: csv_row where
  "blank_expense_reread =
     [(''id'', CNum 1), (''dt'', CStr ''2024-01-15''), (''amount'', CNum 12.5),
      (''description'', CNaN), (''category'', CStr ''Food'')]"

section \<open>Properties\<close>

subsection \<open>The categorizer\<close>

lemma is_substring_iff_sublist: "is_substring kw s \<longleftrightarrow> sublist kw s"
  by (induction s) (simp_all add: sublist_Cons_right)

lemma is_substring_iff: "is_substring kw s \<longleftrightarrow> (\<exists>pre post. s = pre @ kw @ post)"
  by (simp add: is_substring_iff_sublist sublist_def)

lemma scan_keywords_find:
  "scan_keywords tbl desc =
     (case find (\<lambda>(kw, cat). is_substring kw desc) tbl of None \<Rightarrow> ''Misc'' | Some (kw, cat) \<Rightarrow> cat)"
  by (induction tbl desc rule: scan_keywords.induct) simp_all

lemma scan_keywords_first:
  "(\<forall>p \<in> set pre. \<not> is_substring (fst p) desc) \<Longrightarrow> is_substring kw desc \<Longrightarrow>
     scan_keywords (pre @ (kw, cat) # post) desc = cat"
  by (induction pre) auto

lemma scan_keywords_none:
  "(\<forall>p \<in> set tbl. \<not> is_substring (fst p) desc) \<Longrightarrow> scan_keywords tbl desc = ''Misc''"
  by (induction tbl) auto

lemma or_empty_Some: "or_empty (Some d) = d"
  by (simp add: or_empty_def)

text \<open>
  Claim C4. For every description text, \<open>auto_categorize\<close> lowercases the text, goes
  through the keyword table in its fixed order and returns the category of the first
  pair whose keyword is a substring (\<open>sublist\<close>) of the lowercased text, and
  \<^verbatim>\<open>"Misc"\<close> when no keyword is one. So, when the table splits into pairs that do
  not match, a pair that does and a rest (which may hold further matches), the result is
  that pair's category: the earlier pair wins. \<^verbatim>\<open>"Uber ride home"\<close> gives
  \<^verbatim>\<open>"Transport"\<close> and the empty text gives \<^verbatim>\<open>"Misc"\<close>.
\<close>

theorem categorize_first_match:
  "auto_categorize (Some d) =
     (case find (\<lambda>(kw, cat). sublist kw (lower d)) KEYWORD_CATEGORY_MAP of
        None \<Rightarrow> ''Misc'' | Some (kw, cat) \<Rightarrow> cat)
   \<and> (\<forall>pre kw cat post.
        KEYWORD_CATEGORY_MAP = pre @ (kw, cat) # post \<and> sublist kw (lower d) \<and>
        (\<forall>p \<in> set pre. \<not> sublist (fst p) (lower d)) \<longrightarrow> auto_categorize (Some d) = cat)
   \<and> ((\<forall>p \<in> set KEYWORD_CATEGORY_MAP. \<not> sublist (fst p) (lower d)) \<longrightarrow>
        auto_categorize (Some d) = ''Misc'')
   \<and> auto_categorize (Some ''Uber ride home'') = ''Transport''
   \<and> auto_categorize (Some '''') = ''Misc''"
proof (intro conjI allI impI)
  show "auto_categorize (Some d) =
     (case find (\<lambda>(kw, cat). sublist kw (lower d)) KEYWORD_CATEGORY_MAP of
        None \<Rightarrow> ''Misc'' | Some (kw, cat) \<Rightarrow> cat)"
    by (simp add: auto_categorize_def or_empty_Some scan_keywords_find is_substring_iff_sublist)
next
  fix pre kw cat post
  assume "KEYWORD_CATEGORY_MAP = pre @ (kw, cat) # post \<and> sublist kw (lower d) \<and>
        (\<forall>p \<in> set pre. \<not> sublist (fst p) (lower d))"
  then have tbl: "KEYWORD_CATEGORY_MAP = pre @ (kw, cat) # post"
    and hit: "is_substring kw (lower d)"
    and miss: "\<forall>p \<in> set pre. \<not> is_substring (fst p) (lower d)"
    by (simp_all add: is_substring_iff_sublist)
  from scan_keywords_first [OF miss hit, of cat post] tbl
  show "auto_categorize (Some d) = cat"
    by (simp add: auto_categorize_def or_empty_Some)
next
  assume "\<forall>p \<in> set KEYWORD_CATEGORY_MAP. \<not> sublist (fst p) (lower d)"
  then show "auto_categorize (Some d) = ''Misc''"
    by (simp add: auto_categorize_def or_empty_Some scan_keywords_none is_substring_iff_sublist)
next
  show "auto_categorize (Some ''Uber ride home'') = ''Transport''"
    by code_simp
next
  show "auto_categorize (Some '''') = ''Misc''"
    by code_simp
qed

text \<open>
  The description \<^verbatim>\<open>"Coffee in the Uber"\<close> holds the keywords \<^verbatim>\<open>coffee\<close> and
  \<^verbatim>\<open>uber\<close>; \<^verbatim>\<open>uber\<close> stands first in the table and decides.
\<close>

theorem categorize_first_match_witness:
  "auto_categorize (Some ''Coffee in the Uber'') = ''Transport''"
proof -
  have "find (\<lambda>(kw, cat). sublist kw (lower ''Coffee in the Uber'')) KEYWORD_CATEGORY_MAP
          = Some (''uber'', ''Transport'')"
    by code_simp
  with categorize_first_match [of "''Coffee in the Uber''"] show ?thesis
    by simp
qed

text \<open>
  Claim C9. On a missing description (\<^verbatim>\<open>None\<close>) \<open>auto_categorize\<close> returns a
  value, it does not raise: \<^verbatim>\<open>description or ""\<close> turns \<^verbatim>\<open>None\<close> into the empty
  string before \<^verbatim>\<open>.lower()\<close> is called, the result is the one for the empty string,
  and that is \<^verbatim>\<open>"Misc"\<close>.
\<close>

theorem categorize_missing_description:
  "or_empty None = '''' \<and> auto_categorize None = auto_categorize (Some '''')
   \<and> auto_categorize None = ''Misc''"
  by code_simp

subsection \<open>The repository\<close>

lemma sql_eq_Some [simp]: "sql_eq a (Some u) \<longleftrightarrow> a = Some u"
  by (cases a) (auto simp: sql_eq_def)

lemma sql_eq_None [simp]: "\<not> sql_eq a None"
  by (cases a) (auto simp: sql_eq_def)


lemma date_clause_open:
  "\<not> (truthy start_date \<and> truthy end_date) \<Longrightarrow> date_clause sql_date start_date end_date x"
  by (auto simp add: date_clause_def)

lemma date_clause_None_None [simp]: "date_clause sql_date None None x"
  by (simp add: date_clause_def truthy_def)

lemma dt_truncate [simp]: "dt (row.truncate e) = dt e"
  by (simp add: row.truncate_def)

lemma set_fetch_expenses:
  fixes to_datetime :: "string list \<Rightarrow> ('t::linorder) list option"
  assumes r: "fetch_expenses sql_date to_datetime start_date end_date user d = Some rs"
  shows "set rs \<subseteq> row.truncate `
       {e \<in> set (expenses d). sql_eq (user_id e) user \<and>
                               date_clause sql_date start_date end_date (dt e)}"
proof -
  define df where "df = map row.truncate
      (filter (\<lambda>e. sql_eq (user_id e) user \<and> date_clause sql_date start_date end_date (dt e))
         (expenses d))"
  have sub: "set (map snd (rev (sort_key fst (zip stamps df)))) \<subseteq> set df"
    for stamps :: "'t list"
    by (auto dest: set_zip_rightD)
  from r consider "rs = []"
    | stamps :: "'t list" where "rs = map snd (rev (sort_key fst (zip stamps df)))"
    unfolding fetch_expenses_def Let_def df_def [symmetric]
    by (auto split: if_splits option.splits)
  then have "set rs \<subseteq> set df"
  proof cases
    case 1
    then show ?thesis by simp
  next
    case 2
    with sub [of stamps] show ?thesis by simp
  qed
  then show ?thesis
    by (auto simp: df_def)
qed






text \<open>
  Claim C10. The date filter applies only when both bounds are supplied: when the
  start or the end is \<^verbatim>\<open>None\<close> or the empty string, \<open>fetch_expenses\<close> returns what
  it returns with no range at all, whatever the other bound is.
\<close>

theorem fetch_expenses_partial_range:
  "start_date = None \<or> start_date = Some '''' \<or> end_date = None \<or> end_date = Some '''' \<Longrightarrow>
     fetch_expenses sql_date to_datetime start_date end_date user d
       = fetch_expenses sql_date to_datetime None None user d"
proof -
  assume "start_date = None \<or> start_date = Some '''' \<or> end_date = None \<or> end_date = Some ''''"
  then have "\<not> (truthy start_date \<and> truthy end_date)"
    by (auto simp: truthy_def)
  then have "date_clause sql_date start_date end_date x" for x
    by (rule date_clause_open)
  then show ?thesis
    by (simp add: fetch_expenses_def)
qed

text \<open>
  With a start of 1 February 2024 and no end, user 1 still gets the row of January.
\<close>

theorem fetch_expenses_partial_range_witness:
  "fetch_expenses sample_sql_date sample_to_datetime (Some ''2024-02-01'') None (Some 1) sample_db =
     Some [\<lparr>eid = 2, dt = ''2024-02-10'', amount = 12.5, description = ''coffee'', category = ''Food''\<rparr>,
           \<lparr>eid = 1, dt = ''2024-01-15'', amount = 300, description = ''rent'', category = ''Rent''\<rparr>]"
proof -
  have "fetch_expenses sample_sql_date sample_to_datetime None None (Some 1) sample_db =
     Some [\<lparr>eid = 2, dt = ''2024-02-10'', amount = 12.5, description = ''coffee'', category = ''Food''\<rparr>,
           \<lparr>eid = 1, dt = ''2024-01-15'', amount = 300, description = ''rent'', category = ''Rent''\<rparr>]"
    by code_simp
  with fetch_expenses_partial_range
         [of "Some ''2024-02-01''" None sample_sql_date sample_to_datetime "Some 1" sample_db]
  show ?thesis by simp
qed

lemma clear_all_keeps_others:
  "filter (\<lambda>e. user_id e \<noteq> Some u) (expenses (snd (clear_all_expenses confirm (Some u) d)))
     = filter (\<lambda>e. user_id e \<noteq> Some u) (expenses d)"
  by (simp add: clear_all_expenses_def sql_delete_all_def)

lemma delete_range_keeps_others:
  "filter (\<lambda>e. user_id e \<noteq> Some u)
     (expenses (snd (delete_selected_range sql_date year_text a b (Some u) d)))
     = filter (\<lambda>e. user_id e \<noteq> Some u) (expenses d)"
proof -
  have "filter (\<lambda>e. user_id e \<noteq> Some u) (filter (\<lambda>e. \<not> (user_id e = Some u \<and> P e)) xs)
        = filter (\<lambda>e. user_id e \<noteq> Some u) xs" for P and xs :: "expense list"
    by (induction xs) auto
  then show ?thesis
    by (simp add: delete_selected_range_def sql_delete_range_def)
qed

lemma owned_by_filter_others:
  "u \<noteq> v \<Longrightarrow>
     owned_by v d =
       filter (\<lambda>e. user_id e = Some v) (filter (\<lambda>e. user_id e \<noteq> Some u) (expenses d))"
proof -
  assume "u \<noteq> v"
  then have "filter (\<lambda>e. user_id e = Some v) (filter (\<lambda>e. user_id e \<noteq> Some u) xs)
               = filter (\<lambda>e. user_id e = Some v) xs" for xs :: "expense list"
    by (induction xs) auto
  then show ?thesis
    by (simp add: owned_by_def)
qed

lemma truncate_eid: "row.truncate a = row.truncate b \<Longrightarrow> eid a = eid b"
  by (simp add: row.truncate_def)

text \<open>
  Claim C1. Queries and deletions are scoped by the owner. Every row that
  \<open>fetch_expenses\<close> returns for user \<open>u\<close> is a stored expense of \<open>u\<close>, and (ids
  being distinct) none is an expense of another user \<open>v\<close>. The two delete handlers, run
  for \<open>u\<close>, keep every expense that is not owned by \<open>u\<close>, in place; so the expenses
  of any other user \<open>v\<close> are the same after as before. A missing user id (\<^verbatim>\<open>None\<close>)
  matches no record: the query returns the empty frame and the deletions remove nothing.
  All of it holds whatever \<^verbatim>\<open>date()\<close>, \<^verbatim>\<open>pd.to_datetime\<close> and \<^verbatim>\<open>strftime\<close> do.
\<close>

theorem ownership_scoping:
  "(\<forall>rs. fetch_expenses sql_date to_datetime start_date end_date (Some u) d = Some rs \<longrightarrow>
        set rs \<subseteq> row.truncate ` set (owned_by u d))
   \<and> (u \<noteq> v \<and> distinct (map eid (expenses d)) \<longrightarrow>
        (\<forall>rs. fetch_expenses sql_date to_datetime start_date end_date (Some u) d = Some rs \<longrightarrow>
           set rs \<inter> row.truncate ` set (owned_by v d) = {}))
   \<and> filter (\<lambda>e. user_id e \<noteq> Some u) (expenses (snd (clear_all_expenses confirm (Some u) d)))
        = filter (\<lambda>e. user_id e \<noteq> Some u) (expenses d)
   \<and> filter (\<lambda>e. user_id e \<noteq> Some u)
        (expenses (snd (delete_selected_range sql_date year_text a b (Some u) d)))
        = filter (\<lambda>e. user_id e \<noteq> Some u) (expenses d)
   \<and> (u \<noteq> v \<longrightarrow>
        owned_by v (snd (clear_all_expenses confirm (Some u) d)) = owned_by v d \<and>
        owned_by v (snd (delete_selected_range sql_date year_text a b (Some u) d)) = owned_by v d)
   \<and> fetch_expenses sql_date to_datetime start_date end_date None d = Some []
   \<and> snd (clear_all_expenses confirm None d) = d
   \<and> snd (delete_selected_range sql_date year_text a b None d) = d"
proof (intro conjI impI allI)
  show sub: "set rs \<subseteq> row.truncate ` set (owned_by u d)"
    if "fetch_expenses sql_date to_datetime start_date end_date (Some u) d = Some rs" for rs
    using set_fetch_expenses [OF that] by (auto simp: owned_by_def)
  show "set rs \<inter> row.truncate ` set (owned_by v d) = {}"
    if h: "u \<noteq> v \<and> distinct (map eid (expenses d))"
      and run: "fetch_expenses sql_date to_datetime start_date end_date (Some u) d = Some rs"
    for rs
  proof (rule ccontr)
    assume "set rs \<inter> row.truncate ` set (owned_by v d) \<noteq> {}"
    then obtain r where r1: "r \<in> set rs"
      and r2: "r \<in> row.truncate ` set (owned_by v d)" by blast
    from r1 sub [OF run] obtain x
      where x: "x \<in> set (expenses d)" "user_id x = Some u" "r = row.truncate x"
      by (auto simp: owned_by_def)
    from r2 obtain y where y: "y \<in> set (expenses d)" "user_id y = Some v" "r = row.truncate y"
      by (auto simp: owned_by_def)
    from x y have "eid x = eid y" by (metis truncate_eid)
    with h x y have "x = y" by (metis (no_types) distinct_map inj_onD)
    with x y h show False by simp
  qed
  show "filter (\<lambda>e. user_id e \<noteq> Some u) (expenses (snd (clear_all_expenses confirm (Some u) d)))
        = filter (\<lambda>e. user_id e \<noteq> Some u) (expenses d)"
    by (rule clear_all_keeps_others)
  show "filter (\<lambda>e. user_id e \<noteq> Some u)
        (expenses (snd (delete_selected_range sql_date year_text a b (Some u) d)))
        = filter (\<lambda>e. user_id e \<noteq> Some u) (expenses d)"
    by (rule delete_range_keeps_others)
  show "owned_by v (snd (clear_all_expenses confirm (Some u) d)) = owned_by v d" if "u \<noteq> v"
    by (simp only: owned_by_filter_others [OF that] clear_all_keeps_others)
  show "owned_by v (snd (delete_selected_range sql_date year_text a b (Some u) d)) = owned_by v d"
    if "u \<noteq> v"
    by (simp only: owned_by_filter_others [OF that] delete_range_keeps_others)
  show "fetch_expenses sql_date to_datetime start_date end_date None d = Some []"
    by (simp add: fetch_expenses_def)
  show "snd (clear_all_expenses confirm None d) = d"
    by (simp add: clear_all_expenses_def sql_delete_all_def)
  show "snd (delete_selected_range sql_date year_text a b None d) = d"
    by (simp add: delete_selected_range_def sql_delete_range_def)
qed

text \<open>
  Distinct ids are an invariant of the database: it holds at the start and every
  operation that writes keeps it.
\<close>

lemma wf_db_init: "wf_db init_db"
  by (simp add: wf_db_def init_db_def)

lemma wf_db_add_expense: "wf_db d \<Longrightarrow> wf_db (add_expense dt_s amt desc cat user d)"
  by (auto simp: wf_db_def add_expense_def list_all_iff)

lemma wf_db_delete:
  "wf_db d \<Longrightarrow> wf_db (sql_delete_all user d) \<and> wf_db (sql_delete_range sql_date user lo hi d)"
  by (auto simp: wf_db_def sql_delete_all_def sql_delete_range_def list_all_iff distinct_map_filter)

lemma wf_db_register: "wf_db d \<Longrightarrow> wf_db (snd (register_user h u p d))"
  by (auto simp: wf_db_def register_user_def)

lemma wf_db_distinct: "wf_db d \<Longrightarrow> distinct (map eid (expenses d))"
  by (simp add: wf_db_def)

text \<open>
  Users 1 and 2 of the sample database: the query for user 1 returns the two rows of
  user 1, and clearing or range-deleting the expenses of user 1 leaves the one expense
  of user 2 as it was.
\<close>

theorem ownership_scoping_witness:
  "(1::nat) \<noteq> 2 \<and> distinct (map eid (expenses sample_db))
   \<and> fetch_expenses sample_sql_date sample_to_datetime None None (Some 1) sample_db =
       Some [\<lparr>eid = 2, dt = ''2024-02-10'', amount = 12.5, description = ''coffee'', category = ''Food''\<rparr>,
             \<lparr>eid = 1, dt = ''2024-01-15'', amount = 300, description = ''rent'', category = ''Rent''\<rparr>]
   \<and> set [\<lparr>eid = 2, dt = ''2024-02-10'', amount = 12.5, description = ''coffee'', category = ''Food''\<rparr>,
          \<lparr>eid = 1, dt = ''2024-01-15'', amount = 300, description = ''rent'', category = ''Rent''\<rparr>]
       \<inter> row.truncate ` set (owned_by 2 sample_db) = {}
   \<and> owned_by 2 (snd (clear_all_expenses True (Some 1) sample_db)) = owned_by 2 sample_db
   \<and> owned_by 2 (snd (delete_selected_range sample_sql_date four_digits (2024, 1, 1)
                        (2024, 12, 31) (Some 1) sample_db))
        = owned_by 2 sample_db
   \<and> owned_by 2 sample_db =
        [\<lparr>eid = 3, dt = ''2024-03-05'', amount = 40, description = ''uber to airport'',
          category = ''Transport'', user_id = Some 2\<rparr>]
   \<and> owned_by 1 (snd (delete_selected_range sample_sql_date four_digits (2024, 1, 1)
                        (2024, 12, 31) (Some 1) sample_db)) = []"
proof -
  have f: "fetch_expenses sample_sql_date sample_to_datetime None None (Some 1) sample_db =
       Some [\<lparr>eid = 2, dt = ''2024-02-10'', amount = 12.5, description = ''coffee'', category = ''Food''\<rparr>,
             \<lparr>eid = 1, dt = ''2024-01-15'', amount = 300, description = ''rent'', category = ''Rent''\<rparr>]"
    by code_simp
  have d: "distinct (map eid (expenses sample_db))"
    by code_simp
  have o: "owned_by 2 sample_db =
        [\<lparr>eid = 3, dt = ''2024-03-05'', amount = 40, description = ''uber to airport'',
          category = ''Transport'', user_id = Some 2\<rparr>]"
    by code_simp
  have e: "owned_by 1 (snd (delete_selected_range sample_sql_date four_digits (2024, 1, 1)
                        (2024, 12, 31) (Some 1) sample_db)) = []"
    by code_simp
  from ownership_scoping
         [of sample_sql_date sample_to_datetime None None 1 sample_db 2 True four_digits
             "(2024, 1, 1)" "(2024, 12, 31)"]
       f d o e
  show ?thesis by simp
qed

text \<open>
  Claim C2, as stated, fails for the repository function: \<open>add_expense\<close> has no check
  of the amount and stores what it is given. With the amount \<open>-5\<close> it adds a record to
  the empty database, and the user's record count goes from 0 to 1.
\<close>

theorem add_expense_unchecked_counterexample:
  "(-5 :: real) \<le> 0 \<and> expenses init_db = [] \<and>
   expenses (add_expense ''2024-01-15'' (-5) ''refund'' ''Misc'' (Some 1) init_db) =
     [\<lparr>eid = 1, dt = ''2024-01-15'', amount = -5, description = ''refund'', category = ''Misc'',
       user_id = Some 1\<rparr>] \<and>
   map_option length (fetch_expenses sample_sql_date sample_to_datetime None None (Some 1)
            (add_expense ''2024-01-15'' (-5) ''refund'' ''Misc'' (Some 1) init_db)) = Some 1 \<and>
   map_option length (fetch_expenses sample_sql_date sample_to_datetime None None (Some 1) init_db)
     = Some 0"
proof -
  have "map_option length (fetch_expenses sample_sql_date sample_to_datetime None None (Some 1)
            (add_expense ''2024-01-15'' (-5) ''refund'' ''Misc'' (Some 1) init_db)) = Some 1"
    by code_simp
  moreover have "map_option length
      (fetch_expenses sample_sql_date sample_to_datetime None None (Some 1) init_db) = Some 0"
    by code_simp
  ultimately show ?thesis
    by (simp add: add_expense_def init_db_def)
qed

text \<open>
  Claim C2, amended. The check is in the Add Expense form handler: submitted with an
  amount \<open>\<le> 0\<close> it reports the error and returns the database unchanged; with a
  positive amount it calls \<open>add_expense\<close>. \<open>add_expense\<close> itself always stores one
  more record, whatever the amount.
\<close>

theorem add_expense_form_rejects:
  "(amount_input \<le> 0 \<longrightarrow>
      add_expense_form year_text dt_input amount_input description_input category_input user d
        = (Error ''Amount should be greater than 0.'', d))
   \<and> (0 < amount_input \<longrightarrow>
      snd (add_expense_form year_text dt_input amount_input description_input category_input
             user d)
        = add_expense (strftime_ymd year_text dt_input) amount_input (strip description_input)
            category_input user d)
   \<and> length (expenses (add_expense dt_s amt desc cat user d)) = Suc (length (expenses d))"
  by (simp add: add_expense_form_def add_expense_def)

text \<open>The form submitted with the amount 0 on the sample database.\<close>

theorem add_expense_form_rejects_witness:
  "add_expense_form four_digits (2024, 1, 15) 0 ''free sample'' ''Misc'' (Some 1) sample_db
     = (Error ''Amount should be greater than 0.'', sample_db)
   \<and> fetch_expenses sample_sql_date sample_to_datetime None None (Some 1)
        (snd (add_expense_form four_digits (2024, 1, 15) 0 ''free sample'' ''Misc'' (Some 1)
                sample_db))
      = fetch_expenses sample_sql_date sample_to_datetime None None (Some 1) sample_db"
  using add_expense_form_rejects
          [of 0 four_digits "(2024, 1, 15)" "''free sample''" "''Misc''" "Some 1" sample_db]
  by simp

text \<open>
  Claim C8. The handler of "Delete Selected Range", given a start date after the end
  date, reports the error and deletes nothing: the database it returns is the one it
  was given, for every user.
\<close>

theorem delete_range_rejects_reversed:
  "start_del > end_del \<Longrightarrow>
     delete_selected_range sql_date year_text start_del end_del user d
       = (Error ''Start date cannot be after end date.'', d)"
  by (simp add: delete_selected_range_def)

text \<open>From 1 March back to 28 February 2024 on the sample database.\<close>

theorem delete_range_rejects_reversed_witness:
  "((2024, 3, 1) :: date) > (2024, 2, 28) \<and>
   delete_selected_range sample_sql_date four_digits (2024, 3, 1) (2024, 2, 28) (Some 1) sample_db
     = (Error ''Start date cannot be after end date.'', sample_db) \<and>
   fetch_expenses sample_sql_date sample_to_datetime None None (Some 1)
     (snd (delete_selected_range sample_sql_date four_digits (2024, 3, 1) (2024, 2, 28) (Some 1)
             sample_db))
     = fetch_expenses sample_sql_date sample_to_datetime None None (Some 1) sample_db"
proof -
  have h: "((2024, 3, 1) :: date) > (2024, 2, 28)" by simp
  from delete_range_rejects_reversed [OF h, of sample_sql_date four_digits "Some 1" sample_db] h
  show ?thesis by simp
qed

subsection \<open>The credential store\<close>

lemma find_append_None: "find P xs = None \<Longrightarrow> find P (xs @ ys) = find P ys"
  by (induction xs) (auto split: if_splits)

lemma select_user_None: "u \<notin> set (map username (users d)) \<Longrightarrow> select_user u d = None"
  by (auto simp: select_user_def find_None_iff)

lemma select_user_registered:
  "u \<notin> set (map username (users d)) \<Longrightarrow>
     select_user u (snd (register_user h u p d))
       = Some \<lparr>uid = next_uid d, username = u, password_hash = h p\<rparr>"
proof -
  assume fresh: "u \<notin> set (map username (users d))"
  then have "find (\<lambda>r. username r = u) (users d) = None"
    by (auto simp: find_None_iff)
  then have "find (\<lambda>r. username r = u) (users d @ [x]) = find (\<lambda>r. username r = u) [x]" for x
    by (rule find_append_None)
  with fresh show ?thesis
    by (simp add: select_user_def register_user_def)
qed

text \<open>
  Claim C7. Registering a username that is stored already returns \<^verbatim>\<open>False\<close> (a
  value, not an exception) and leaves the database, so the stored credential, as it was.
  After a first registration of a fresh name \<open>u\<close> with password \<open>p1\<close>: a second
  registration of \<open>u\<close> returns \<^verbatim>\<open>False\<close> and changes nothing; \<open>u\<close> authenticates
  with \<open>p1\<close>; a password whose digest differs from that of \<open>p1\<close> is refused with
  \<^verbatim>\<open>False\<close>, the same value an unknown username \<open>v\<close> gets.
\<close>

theorem register_duplicate_conflict:
  "(u \<in> set (map username (users d)) \<longrightarrow> register_user h u p2 d = (False, d))
   \<and> (u \<notin> set (map username (users d)) \<longrightarrow>
        (let d1 = snd (register_user h u p1 d) in
           fst (register_user h u p1 d) = True
           \<and> register_user h u p2 d1 = (False, d1)
           \<and> authenticate_user h u p1 d1 = True
           \<and> (h w \<noteq> h p1 \<longrightarrow> authenticate_user h u w d1 = False)
           \<and> (v \<notin> set (map username (users d1)) \<longrightarrow> authenticate_user h v w d1 = False)))"
proof (intro conjI impI)
  show "register_user h u p2 d = (False, d)" if "u \<in> set (map username (users d))"
    using that by (simp add: register_user_def)
  show "let d1 = snd (register_user h u p1 d) in
           fst (register_user h u p1 d) = True
           \<and> register_user h u p2 d1 = (False, d1)
           \<and> authenticate_user h u p1 d1 = True
           \<and> (h w \<noteq> h p1 \<longrightarrow> authenticate_user h u w d1 = False)
           \<and> (v \<notin> set (map username (users d1)) \<longrightarrow> authenticate_user h v w d1 = False)"
    if fresh: "u \<notin> set (map username (users d))"
  proof -
    define d1 where "d1 = snd (register_user h u p1 d)"
    have ok: "fst (register_user h u p1 d) = True"
      using fresh by (simp add: register_user_def)
    have stored: "u \<in> set (map username (users d1))"
      using fresh by (simp add: d1_def register_user_def)
    then have dup: "register_user h u p2 d1 = (False, d1)"
      by (simp add: register_user_def)
    have sel: "select_user u d1 = Some \<lparr>uid = next_uid d, username = u, password_hash = h p1\<rparr>"
      unfolding d1_def by (rule select_user_registered [OF fresh])
    have good: "authenticate_user h u p1 d1 = True"
      by (simp add: authenticate_user_def sel verify_password_def)
    have bad: "authenticate_user h u w d1 = False" if "h w \<noteq> h p1"
      using that by (simp add: authenticate_user_def sel verify_password_def)
    have unknown: "authenticate_user h v w d1 = False" if "v \<notin> set (map username (users d1))"
      by (simp add: authenticate_user_def select_user_None [OF that])
    from ok dup good bad unknown show ?thesis
      unfolding d1_def [symmetric] Let_def by blast
  qed
qed

text \<open>
  The scenario of the claim on the empty database, with a stand-in for SHA-256 that
  tells \<^verbatim>\<open>"wrong"\<close> from \<^verbatim>\<open>"pw1"\<close>.
\<close>

theorem register_duplicate_conflict_witness:
  "(let h = (\<lambda>s. ''digest of '' @ s); d1 = snd (register_user h ''alice'' ''pw1'' init_db) in
     register_user h ''alice'' ''pw1'' init_db = (True, d1)
     \<and> register_user h ''alice'' ''pw2'' d1 = (False, d1)
     \<and> authenticate_user h ''alice'' ''pw1'' d1 = True
     \<and> authenticate_user h ''alice'' ''wrong'' d1 = False
     \<and> authenticate_user h ''bob'' ''wrong'' d1 = False)"
proof -
  let ?h = "\<lambda>s. ''digest of '' @ s"
  have fresh: "''alice'' \<notin> set (map username (users init_db))"
    by (simp add: init_db_def)
  have other: "''bob'' \<notin> set (map username (users (snd (register_user ?h ''alice'' ''pw1'' init_db))))"
    by (simp add: init_db_def register_user_def)
  have diff: "?h ''wrong'' \<noteq> ?h ''pw1''"
    by simp
  from register_duplicate_conflict [of "''alice''" init_db ?h "''pw2''" "''pw1''" "''wrong''" "''bob''"]
    fresh other diff
  show ?thesis
    by (simp add: Let_def prod_eq_iff)
qed

subsection \<open>Bulk import and the round trip\<close>

lemma import_rows_append:
  "import_rows L cols user (xs @ ys) st = import_rows L cols user ys (import_rows L cols user xs st)"
  by (simp add: import_rows_def)

lemma import_rows_Cons:
  "import_rows L cols user (r # rs) st = import_rows L cols user rs (import_row L cols user r st)"
  by (simp add: import_rows_def)

lemma import_rows_Nil: "import_rows L cols user [] st = st"
  by (simp add: import_rows_def)

lemma import_row_fails: "row_fails L r \<Longrightarrow> import_row L cols user r st = st"
  by (auto simp: row_fails_def import_row_def Let_def split: option.splits pyfloat.splits)

lemma import_row_ok:
  "row_ok L cols r \<Longrightarrow>
     snd (import_row L cols user r st) = Suc (snd st) \<and>
     length (expenses (fst (import_row L cols user r st))) = Suc (length (expenses (fst st)))"
proof -
  assume ok: "row_ok L cols r"
  define cat where "cat = (if ''category'' \<in> set cols then row_get r ''category'' None else None)"
  define desc where "desc = py_str L (row_get r ''description'' (Some (CStr [])))"
  from ok obtain a where a: "py_float L (row_get r ''amount'' (Some (CNum 0))) = Some (Fin a)" "0 < a"
    and rest: "dateutil_parse L (row_get r ''dt'' None) \<noteq> None" "row_category L desc cat \<noteq> None"
    unfolding row_ok_def cat_def desc_def by (auto split: option.splits pyfloat.splits)
  from rest obtain day c where day: "dateutil_parse L (row_get r ''dt'' None) = Some day"
    and c: "row_category L desc cat = Some c"
    by auto
  have "import_row L cols user r st =
          (add_expense (strftime_ymd (year_of L) day) a desc c user (fst st), Suc (snd st))"
    unfolding import_row_def Let_def
    using a day c by (simp add: cat_def [symmetric] desc_def [symmetric])
  then show ?thesis
    by (simp add: add_expense_def)
qed

lemma import_row_cases:
  "import_row L cols user r st = st \<or>
   (\<exists>dt_s a desc c. import_row L cols user r st = (add_expense dt_s a desc c user (fst st), Suc (snd st)) \<and> 0 < a)"
  by (auto simp: import_row_def Let_def split: option.splits pyfloat.splits)

text \<open>
  Claim C6. Bulk import isolates the failure of a row. A row whose amount does not
  parse, whose date does not parse or whose amount is \<open>\<le> 0\<close> leaves the database and
  the counter as they are, and the rows after it are processed as if it were not there:
  the loop over \<open>before @ r # after\<close> is the loop over \<open>after\<close>, started from what
  the loop over \<open>before\<close> left. For a batch of three rows of which the first and the
  third are good and the second has an amount that is no number, the message reports 2
  inserted records and the database holds two more expenses.
\<close>

theorem import_isolates_row_failures:
  "(row_fails L r \<longrightarrow>
      import_row L cols user r st = st \<and>
      import_rows L cols user (before @ r # after) st
        = import_rows L cols user after (import_rows L cols user before st))
   \<and> (row_ok L cols r1 \<and> py_float L (row_get r2 ''amount'' (Some (CNum 0))) = None \<and> row_ok L cols r3 \<longrightarrow>
        fst (bulk_import L cols user [r1, r2, r3] d) = Imported 2 \<and>
        length (expenses (snd (bulk_import L cols user [r1, r2, r3] d))) = length (expenses d) + 2)"
proof (intro conjI impI)
  assume f: "row_fails L r"
  then show skip: "import_row L cols user r st = st"
    by (rule import_row_fails)
  show "import_rows L cols user (before @ r # after) st
        = import_rows L cols user after (import_rows L cols user before st)"
    by (simp add: import_rows_append import_rows_Cons import_row_fails [OF f])
next
  assume h: "row_ok L cols r1 \<and> py_float L (row_get r2 ''amount'' (Some (CNum 0))) = None \<and> row_ok L cols r3"
  then have r2: "row_fails L r2" by (simp add: row_fails_def)
  define s1 where "s1 = import_row L cols user r1 (d, 0)"
  define s3 where "s3 = import_row L cols user r3 s1"
  from h have a1: "snd s1 = 1" "length (expenses (fst s1)) = Suc (length (expenses d))"
    using import_row_ok [of L cols r1 user "(d, 0)"] by (simp_all add: s1_def)
  from h have a3: "snd s3 = Suc (snd s1)" "length (expenses (fst s3)) = Suc (length (expenses (fst s1)))"
    using import_row_ok [of L cols r3 user s1] by (simp_all add: s3_def)
  have run: "import_rows L cols user [r1, r2, r3] (d, 0) = s3"
    by (simp add: import_rows_Cons import_rows_Nil import_row_fails [OF r2] s1_def s3_def)
  from a1 a3 show "fst (bulk_import L cols user [r1, r2, r3] d) = Imported 2"
    by (cases s3) (simp add: bulk_import_def run)
  from a1 a3 show "length (expenses (snd (bulk_import L cols user [r1, r2, r3] d))) = length (expenses d) + 2"
    by (cases s3) (simp add: bulk_import_def run)
qed

text \<open>
  The three sample rows, the amount of the second being \<^verbatim>\<open>twelve\<close>: the first and the
  third row are stored, categorized from their descriptions.
\<close>

theorem import_isolates_row_failures_witness:
  "row_ok sample_lib upload_columns upload_row1
   \<and> py_float sample_lib (row_get upload_row2 ''amount'' (Some (CNum 0))) = None
   \<and> row_ok sample_lib upload_columns upload_row3
   \<and> fst (bulk_import sample_lib upload_columns (Some 1) [upload_row1, upload_row2, upload_row3]
             init_db) = Imported 2
   \<and> snd (bulk_import sample_lib upload_columns (Some 1) [upload_row1, upload_row2, upload_row3]
             init_db)
       = add_expense ''2024-03-05'' 40 ''taxi home'' ''Transport'' (Some 1)
           (add_expense ''2024-01-15'' 12.5 ''coffee beans'' ''Food'' (Some 1) init_db)"
proof -
  have ok1: "row_ok sample_lib upload_columns upload_row1"
    by code_simp
  have bad: "py_float sample_lib (row_get upload_row2 ''amount'' (Some (CNum 0))) = None"
    by code_simp
  have ok3: "row_ok sample_lib upload_columns upload_row3"
    by code_simp
  have run: "snd (bulk_import sample_lib upload_columns (Some 1)
                    [upload_row1, upload_row2, upload_row3] init_db)
       = add_expense ''2024-03-05'' 40 ''taxi home'' ''Transport'' (Some 1)
           (add_expense ''2024-01-15'' 12.5 ''coffee beans'' ''Food'' (Some 1) init_db)"
    by code_simp
  from import_isolates_row_failures
         [where L = sample_lib and cols = upload_columns and user = "Some 1" and d = init_db
            and r = upload_row2 and st = "(init_db, 0)" and before = "[upload_row1]"
            and after = "[upload_row3]"
            and ?r1.0 = upload_row1 and ?r2.0 = upload_row2 and ?r3.0 = upload_row3]
       ok1 bad ok3 run
  show ?thesis by simp
qed

text \<open>
  Claim C5 does not hold of the code. An expense with an empty description comes back
  from the export as a row whose description cell is NaN, and
  \<^verbatim>\<open>str(row.get("description",""))\<close> makes the text \<^verbatim>\<open>nan\<close> of it: the record
  inserted by the import has the description \<^verbatim>\<open>nan\<close>, not the empty one. (For the
  category the loop does test \<^verbatim>\<open>pd.isna\<close>.) Date, amount and category come back as
  they were.
\<close>

theorem reimport_blank_description:
  "parse_date L ''2024-01-15'' = Some (2024, 1, 15) \<Longrightarrow>
     description blank_expense = [] \<and>
     import_rows L exported_columns user [blank_expense_reread] (d, n)
       = (add_expense ''2024-01-15'' 12.5 ''nan'' ''Food'' user d, Suc n)"
proof -
  assume p: "parse_date L ''2024-01-15'' = Some (2024, 1, 15)"
  have "four_digits 2024 = ''2024''" and "two_digits 1 = ''01''" and "two_digits 15 = ''15''"
    by code_simp+
  then have fmt: "strftime_ymd (year_of L) (2024, Suc 0, 15) = ''2024-01-15''"
    by (simp add: strftime_ymd_def)
  have "import_row L exported_columns user blank_expense_reread (d, n)
          = (add_expense ''2024-01-15'' 12.5 ''nan'' ''Food'' user d, Suc n)"
    by (simp add: import_row_def row_get_def blank_expense_reread_def exported_columns_def
          py_float_def py_str_def dateutil_parse_def row_category_def p fmt Let_def)
  then show ?thesis
    by (simp add: import_rows_def blank_expense_def)
qed

text \<open>With the sample library, into the empty database.\<close>

theorem reimport_blank_description_witness:
  "description blank_expense = [] \<and>
   map description (expenses (fst (import_rows sample_lib exported_columns (Some 1)
      [blank_expense_reread] (init_db, 0)))) = [''nan'']"
proof -
  have h: "parse_date sample_lib ''2024-01-15'' = Some (2024, 1, 15)"
    by code_simp
  from reimport_blank_description [OF h, of "Some 1" init_db 0]
  show ?thesis by (simp add: add_expense_def init_db_def)
qed

end
